theory Spec2Isabelle
  imports Main
begin

section \<open>JavaScript values, objects and exceptions\<close>

text \<open>
  A JavaScript exception is a value. \<open>Error m\<close> is \<open>new Error(m)\<close>, \<open>TypeError m\<close> is what a
  property read on \<open>undefined\<close> raises, and \<open>HostError\<close> stands for any rejection that comes
  out of the host's storage implementation.
\<close>

datatype js_error = TypeError string | Error string | HostError

text \<open>
  The values the code handles where its types say \<open>T\<close> or \<open>T | undefined\<close>. The type
  parameter \<open>T\<close> of \<open>StorageItem\<close> is unconstrained, so \<open>undefined\<close> can be passed wherever
  a \<open>T\<close> is expected. \<open>Value v\<close> is a value the host can store (\<open>'v\<close> stands for these),
  \<open>Undefined\<close> is \<open>undefined\<close>, and \<open>Inherited n\<close> is the member \<open>n\<close> of \<open>Object.prototype\<close>
  (a function, or for \<open>__proto__\<close> the prototype itself), which a property read on a plain
  object returns when the object has no own property \<open>n\<close>.
\<close>

datatype 'v js_value = Undefined | Value 'v | Inherited string

text \<open>The property names of \<open>Object.prototype\<close>.\<close>

definition Object_prototype :: "string list" where
  "Object_prototype =
     [''constructor'', ''hasOwnProperty'', ''isPrototypeOf'', ''propertyIsEnumerable'',
      ''toLocaleString'', ''toString'', ''valueOf'', ''__proto__'',
      ''__defineGetter__'', ''__defineSetter__'', ''__lookupGetter__'', ''__lookupSetter__'']"

text \<open>
  A plain object is the map of its own properties; its prototype is \<open>Object.prototype\<close>.
  \<open>js_get k obj\<close> is the read \<open>obj[k]\<close>: the own property, else the member of the prototype,
  else nothing (\<open>undefined\<close>). \<open>js_in k obj\<close> is \<open>k in obj\<close>, which looks in the same places.
\<close>

datatype 'a js_lookup = NotFound | OwnProperty 'a | PrototypeMember string

definition js_get :: "string \<Rightarrow> (string \<rightharpoonup> 'a) \<Rightarrow> 'a js_lookup" where
  "js_get k obj =
     (case obj k of
        Some x \<Rightarrow> OwnProperty x
      | None \<Rightarrow> (if k \<in> set Object_prototype then PrototypeMember k else NotFound))"

definition js_in :: "string \<Rightarrow> (string \<rightharpoonup> 'a) \<Rightarrow> bool" where
  "js_in k obj = (js_get k obj \<noteq> NotFound)"

section \<open>The host: \<open>browser.storage\<close>, the console and callbacks\<close>

text \<open>The three area objects \<open>browser.storage.local\<close>, \<open>.sync\<close> and \<open>.managed\<close>.\<close>

datatype area_handle = Local | Sync | Managed

text \<open>
  A listener registered with \<open>browser.storage.onChanged.addListener\<close>: the module-scope
  closure of the Change Broadcaster, or the closure a \<open>StorageItem\<close> constructor creates
  (tagged with the key and area name of the item it captures).
\<close>

datatype listener = GlobalStorageObserverListener | StorageItemListener string string

text \<open>
  The host store. \<open>local\<close> and \<open>sync\<close> are key-value maps. The \<open>managed\<close> area is either
  uninitialised (\<open>None\<close>: every read of it rejects, as the comment in \<open>getRawValue\<close> says) or
  a map; the host refuses every write to it. The host is taken to accept every write to
  \<open>local\<close> and \<open>sync\<close> and to hand a stored value back unchanged. It serialises the object
  it is given, which drops a property whose value is \<open>undefined\<close> or a function: such a
  write stores nothing.
\<close>

record 'v browser_storage =
  local_entries :: "string \<rightharpoonup> 'v"
  sync_entries :: "string \<rightharpoonup> 'v"
  managed_entries :: "(string \<rightharpoonup> 'v) option"
  onChanged_listeners :: "listener list"

text \<open>
  \<open>area.get(key)\<close>: a plain object whose only own property is the key, when the area has
  it; or a rejection.
\<close>

definition host_get ::
  "area_handle \<Rightarrow> string \<Rightarrow> 'v browser_storage \<Rightarrow> js_error + (string \<rightharpoonup> 'v)" where
  "host_get a k s =
     (case a of
        Local \<Rightarrow> Inr (local_entries s |` {k})
      | Sync \<Rightarrow> Inr (sync_entries s |` {k})
      | Managed \<Rightarrow>
          (case managed_entries s of
             None \<Rightarrow> Inl HostError
           | Some m \<Rightarrow> Inr (m |` {k})))"

text \<open>\<open>area.set({[key]: value})\<close>.\<close>

definition store_entry :: "string \<Rightarrow> 'v js_value \<Rightarrow> (string \<rightharpoonup> 'v) \<Rightarrow> (string \<rightharpoonup> 'v)" where
  "store_entry k x m = (case x of Value v \<Rightarrow> m(k \<mapsto> v) | _ \<Rightarrow> m)"

definition host_set ::
  "area_handle \<Rightarrow> string \<Rightarrow> 'v js_value \<Rightarrow> 'v browser_storage
     \<Rightarrow> js_error + 'v browser_storage" where
  "host_set a k x s =
     (case a of
        Local \<Rightarrow> Inr (s\<lparr>local_entries := store_entry k x (local_entries s)\<rparr>)
      | Sync \<Rightarrow> Inr (s\<lparr>sync_entries := store_entry k x (sync_entries s)\<rparr>)
      | Managed \<Rightarrow> Inl HostError)"

text \<open>\<open>area.remove(key)\<close>.\<close>

definition host_remove ::
  "area_handle \<Rightarrow> string \<Rightarrow> 'v browser_storage \<Rightarrow> js_error + 'v browser_storage" where
  "host_remove a k s =
     (case a of
        Local \<Rightarrow> Inr (s\<lparr>local_entries := (local_entries s)(k := None)\<rparr>)
      | Sync \<Rightarrow> Inr (s\<lparr>sync_entries := (sync_entries s)(k := None)\<rparr>)
      | Managed \<Rightarrow> Inl HostError)"

text \<open>
  A read that has been issued and not yet answered: \<open>getRawValue\<close> either returned
  \<open>undefined\<close> before any host call (\<open>this.area\<close> unset), or is suspended at
  \<open>await this.area.get(this.key)\<close>.
\<close>

datatype pending_read = NoArea | AwaitingGet area_handle string

text \<open>
  A suspended \<open>this.getValue().then(callback)\<close>: the read it waits for, the default value
  \<open>getValue\<close> falls back to, and the callback (a function object, named by a number).
\<close>

datatype 'v task =
  ThenCallback (task_read: pending_read) (task_default: "'v js_value") (task_callback: nat)

text \<open>Everything observable the code does, in the order it does it.\<close>

datatype 'v effect =
    ConsoleWarn string
  | ConsoleError js_error
  | HostGet area_handle string
  | HostSet area_handle string "'v js_value"
  | HostRemove area_handle string
  | SinkDispatch "'v js_value"
  | Invoked nat "'v js_value"
  | UnhandledRejection js_error

text \<open>
  The environment of the module. \<open>storage\<close> is \<open>browser.storage\<close>, \<open>None\<close> when the host
  does not provide it. \<open>funs c x\<close> is what calling the function object \<open>c\<close> on \<open>x\<close> does:
  \<open>None\<close> when it returns, \<open>Some e\<close> when it throws \<open>e\<close>; callbacks are otherwise opaque and
  do not call back into the item. \<open>tasks\<close> are the suspended reports of \<open>observe\<close>, oldest
  first.
\<close>

record 'v env =
  storage :: "'v browser_storage option"
  funs :: "nat \<Rightarrow> 'v js_value \<Rightarrow> js_error option"
  tasks :: "'v task list"
  effects :: "'v effect list"

definition log :: "'v effect \<Rightarrow> 'v env \<Rightarrow> 'v env" where
  "log ef e = e\<lparr>effects := effects e @ [ef]\<rparr>"

text \<open>The answer of the host to a read through an area object.\<close>

definition area_get :: "area_handle \<Rightarrow> string \<Rightarrow> 'v env \<Rightarrow> js_error + (string \<rightharpoonup> 'v)" where
  "area_get a k e =
     (case storage e of
        None \<Rightarrow> Inl HostError
      | Some s \<Rightarrow> host_get a k s)"

definition area_set ::
  "area_handle \<Rightarrow> string \<Rightarrow> 'v js_value \<Rightarrow> 'v env \<Rightarrow> (js_error + unit) \<times> 'v env" where
  "area_set a k x e =
     (let e1 = log (HostSet a k x) e in
      case storage e1 of
        None \<Rightarrow> (Inl HostError, e1)
      | Some s \<Rightarrow>
          (case host_set a k x s of
             Inl err \<Rightarrow> (Inl err, e1)
           | Inr s' \<Rightarrow> (Inr (), e1\<lparr>storage := Some s'\<rparr>)))"

definition area_remove :: "area_handle \<Rightarrow> string \<Rightarrow> 'v env \<Rightarrow> (js_error + unit) \<times> 'v env" where
  "area_remove a k e =
     (let e1 = log (HostRemove a k) e in
      case storage e1 of
        None \<Rightarrow> (Inl HostError, e1)
      | Some s \<Rightarrow>
          (case host_remove a k s of
             Inl err \<Rightarrow> (Inl err, e1)
           | Inr s' \<Rightarrow> (Inr (), e1\<lparr>storage := Some s'\<rparr>)))"

definition addListener :: "listener \<Rightarrow> 'v browser_storage \<Rightarrow> 'v browser_storage" where
  "addListener l s = s\<lparr>onChanged_listeners := onChanged_listeners s @ [l]\<rparr>"

section \<open>The Change Broadcaster (module scope of \<open>GlobalStorageObserver\<close>)\<close>

text \<open>
  Loading the module evaluates \<open>browser.storage.onChanged.addListener(...)\<close>. Nothing
  guards the read of \<open>browser.storage.onChanged\<close>, so with \<open>browser.storage\<close> undefined
  the property read throws.
\<close>

definition GlobalStorageObserver_load :: "'v env \<Rightarrow> js_error + 'v env" where
  "GlobalStorageObserver_load e =
     (case storage e of
        None \<Rightarrow> Inl (TypeError ''browser.storage is undefined'')
      | Some s \<Rightarrow> Inr (e\<lparr>storage := Some (addListener GlobalStorageObserverListener s)\<rparr>))"

section \<open>\<open>StorageItem\<close>\<close>

text \<open>
  The fields of the class. \<open>area\<close> is \<open>None\<close> for \<open>undefined\<close>. \<open>observers\<close> is the
  \<open>Set\<close> of callbacks in insertion order, without duplicates.
\<close>

record 'v StorageItem =
  area :: "area_handle option"
  key :: string
  areaName :: string
  defaultValue :: "'v js_value"
  observers :: "nat list"

text \<open>
  The constructor. At run time \<open>area\<close> is any string, so the \<open>default\<close> branch of the
  \<open>switch\<close> is reachable. The check of \<open>browser.storage\<close> comes first and returns.
\<close>

definition active_item ::
  "string \<Rightarrow> 'v js_value \<Rightarrow> area_handle \<Rightarrow> string \<Rightarrow> 'v browser_storage \<Rightarrow> 'v env
     \<Rightarrow> (js_error + 'v StorageItem) \<times> 'v env" where
  "active_item k d h nm s e =
     (Inr \<lparr>area = Some h, key = k, areaName = nm, defaultValue = d, observers = []\<rparr>,
      e\<lparr>storage := Some (addListener (StorageItemListener k nm) s)\<rparr>)"

definition StorageItem_new ::
  "string \<Rightarrow> 'v js_value \<Rightarrow> string \<Rightarrow> 'v env \<Rightarrow> (js_error + 'v StorageItem) \<times> 'v env" where
  "StorageItem_new k d a e =
     (case storage e of
        None \<Rightarrow>
          (Inr \<lparr>area = None, key = k, areaName = a, defaultValue = d, observers = []\<rparr>,
           log (ConsoleWarn ''browser.storage is not available, storage will not work'') e)
      | Some s \<Rightarrow>
          if a = ''local'' then active_item k d Local ''local'' s e
          else if a = ''sync'' then active_item k d Sync ''sync'' s e
          else if a = ''managed'' then active_item k d Managed ''managed'' s e
          else (Inl (Error (''Unknown storage area: '' @ a)), e))"

text \<open>
  \<open>getRawValue\<close> up to its \<open>await\<close>, and from the host's answer on. A rejected read is
  caught and gives \<open>undefined\<close>. \<open>data[this.key]\<close> is a property read on the plain object
  the host returned, so it finds the members of \<open>Object.prototype\<close> too.
\<close>

definition getRawValue_begin :: "'v StorageItem \<Rightarrow> 'v env \<Rightarrow> pending_read \<times> 'v env" where
  "getRawValue_begin it e =
     (case area it of
        None \<Rightarrow> (NoArea, e)
      | Some a \<Rightarrow> (AwaitingGet a (key it), log (HostGet a (key it)) e))"

definition getRawValue_end :: "pending_read \<Rightarrow> 'v env \<Rightarrow> 'v js_value" where
  "getRawValue_end p e =
     (case p of
        NoArea \<Rightarrow> Undefined
      | AwaitingGet a k \<Rightarrow>
          (case area_get a k e of
             Inl _ \<Rightarrow> Undefined
           | Inr data \<Rightarrow>
               (case js_get k data of
                  NotFound \<Rightarrow> Undefined
                | OwnProperty v \<Rightarrow> Value v
                | PrototypeMember n \<Rightarrow> Inherited n)))"

definition getRawValue :: "'v StorageItem \<Rightarrow> 'v env \<Rightarrow> 'v js_value \<times> 'v env" where
  "getRawValue it e =
     (let (p, e1) = getRawValue_begin it e in (getRawValue_end p e1, e1))"

definition hasValue :: "'v StorageItem \<Rightarrow> 'v env \<Rightarrow> bool \<times> 'v env" where
  "hasValue it e = (let (x, e1) = getRawValue it e in (x \<noteq> Undefined, e1))"

definition getValue :: "'v StorageItem \<Rightarrow> 'v env \<Rightarrow> 'v js_value \<times> 'v env" where
  "getValue it e =
     (let (x, e1) = getRawValue it e in
      (if x = Undefined then defaultValue it else x, e1))"

definition clearValue :: "'v StorageItem \<Rightarrow> 'v env \<Rightarrow> (js_error + unit) \<times> 'v env" where
  "clearValue it e =
     (if areaName it = ''managed'' then (Inl (Error ''Cannot clear managed storage''), e)
      else case area it of
        None \<Rightarrow> (Inr (), e)
      | Some a \<Rightarrow> area_remove a (key it) e)"

definition setValue ::
  "'v StorageItem \<Rightarrow> 'v js_value \<Rightarrow> 'v env \<Rightarrow> (js_error + unit) \<times> 'v env" where
  "setValue it x e =
     (if areaName it = ''managed'' then (Inl (Error ''Cannot set managed storage''), e)
      else case area it of
        None \<Rightarrow> (Inr (), e)
      | Some a \<Rightarrow> area_set a (key it) x e)"

text \<open>\<open>Set.prototype.add\<close> and \<open>Set.prototype.delete\<close> on the insertion-ordered set.\<close>

definition set_add :: "nat \<Rightarrow> nat list \<Rightarrow> nat list" where
  "set_add c cs = (if c \<in> set cs then cs else cs @ [c])"

definition set_delete :: "nat \<Rightarrow> nat list \<Rightarrow> nat list" where
  "set_delete c cs = removeAll c cs"

text \<open>
  \<open>observe\<close>: with \<open>reportCurrentValue\<close> the read is issued at once and the callback is
  left waiting for it; then the callback joins the set.
\<close>

definition observe ::
  "nat \<Rightarrow> bool \<Rightarrow> 'v StorageItem \<Rightarrow> 'v env \<Rightarrow> 'v StorageItem \<times> 'v env" where
  "observe callback reportCurrentValue it e =
     (let e1 =
        (if reportCurrentValue then
           (let (p, e') = getRawValue_begin it e in
            e'\<lparr>tasks := tasks e' @ [ThenCallback p (defaultValue it) callback]\<rparr>)
         else e)
      in (it\<lparr>observers := set_add callback (observers it)\<rparr>, e1))"

definition unobserve :: "nat \<Rightarrow> 'v StorageItem \<Rightarrow> 'v StorageItem" where
  "unobserve callback it = it\<lparr>observers := set_delete callback (observers it)\<rparr>"

text \<open>
  The host answers a suspended read: \<open>getValue\<close> resolves and \<open>then\<close> calls the callback.
  Nothing handles a throw of the callback there.
\<close>

definition settle :: "'v task \<Rightarrow> 'v env \<Rightarrow> 'v env" where
  "settle t e =
     (case t of ThenCallback p d c \<Rightarrow>
        (let x = getRawValue_end p e;
             v = (if x = Undefined then d else x);
             e1 = log (Invoked c v) e
         in case funs e c v of
              None \<Rightarrow> e1
            | Some err \<Rightarrow> log (UnhandledRejection err) e1))"

definition run_tasks :: "'v env \<Rightarrow> 'v env" where
  "run_tasks e = fold settle (tasks e) (e\<lparr>tasks := []\<rparr>)"

text \<open>
  \<open>this.observers.forEach((observer) => observer(value))\<close>: in insertion order; a throw of
  one observer leaves \<open>forEach\<close> at once.
\<close>

fun observers_forEach ::
  "nat list \<Rightarrow> 'v js_value \<Rightarrow> 'v env \<Rightarrow> js_error option \<times> 'v env" where
  "observers_forEach [] v e = (None, e)"
| "observers_forEach (c # cs) v e =
     (let e1 = log (Invoked c v) e in
      case funs e c v of
        Some err \<Rightarrow> (Some err, e1)
      | None \<Rightarrow> observers_forEach cs v e1)"

text \<open>
  One entry of the \<open>changes\<close> object of a change event. The host gives \<open>oldValue\<close> and
  \<open>newValue\<close>, each \<open>undefined\<close> when absent.
\<close>

record 'v StorageChange =
  oldValue :: "'v js_value"
  newValue :: "'v js_value"

text \<open>
  Lines 78 to 85 of the listener, from the \<open>newValue\<close> read off the change: the effective
  value goes to the event sink and then to the observers, inside one \<open>try\<close> whose \<open>catch\<close>
  logs. \<open>EventSink\<close> belongs to another package: \<open>this.onChanged.dispatch(value)\<close> is
  recorded as \<open>SinkDispatch\<close> and taken to return.
\<close>

definition dispatch_change :: "'v StorageItem \<Rightarrow> 'v js_value \<Rightarrow> 'v env \<Rightarrow> 'v env" where
  "dispatch_change it nv e =
     (let v = (if Undefined \<noteq> nv then nv else defaultValue it);
          e1 = log (SinkDispatch v) e;
          (r, e2) = observers_forEach (observers it) v e1
      in (case r of
            None \<Rightarrow> e2
          | Some err \<Rightarrow> log (ConsoleError err) e2))"

text \<open>
  The listener the constructor registers. \<open>changes\<close> is a plain object: its own
  properties are the changed keys, \<open>Some ch\<close> for a change object and \<open>None\<close> for a falsy
  entry. \<open>this.key in changes\<close> and \<open>changes[this.key]\<close> also find the members of
  \<open>Object.prototype\<close>; such a member is truthy and has no \<open>newValue\<close>.
\<close>

definition onChanged_listener ::
  "'v StorageItem \<Rightarrow> (string \<rightharpoonup> 'v StorageChange option) \<Rightarrow> string \<Rightarrow> 'v env \<Rightarrow> 'v env" where
  "onChanged_listener it changes an e =
     (if \<not> js_in (key it) changes then e
      else if an \<noteq> areaName it then e
      else
        (case js_get (key it) changes of
           NotFound \<Rightarrow> e
         | OwnProperty None \<Rightarrow> e
         | OwnProperty (Some ch) \<Rightarrow> dispatch_change it (newValue ch) e
         | PrototypeMember n \<Rightarrow> dispatch_change it Undefined e))"

text \<open>The values a callback has been called with, oldest first.\<close>

fun invocations :: "nat \<Rightarrow> 'v effect list \<Rightarrow> 'v js_value list" where
  "invocations c [] = []"
| "invocations c (Invoked c' v # es) =
     (if c' = c then v # invocations c es else invocations c es)"
| "invocations c (_ # es) = invocations c es"

section \<open>What the specification speaks of\<close>

text \<open>
  The value stored under a key in the area of a given name, read off the host store
  itself (not through the item): nothing for an uninitialised managed area, for a name
  that is no area, and when the host has no storage at all.
\<close>

definition stored_value :: "string \<Rightarrow> string \<Rightarrow> 'v browser_storage \<Rightarrow> 'v option" where
  "stored_value a k s =
     (if a = ''local'' then local_entries s k
      else if a = ''sync'' then sync_entries s k
      else if a = ''managed'' then
        (case managed_entries s of None \<Rightarrow> None | Some m \<Rightarrow> m k)
      else None)"

definition current_value :: "string \<Rightarrow> string \<Rightarrow> 'v env \<Rightarrow> 'v option" where
  "current_value a k e =
     (case storage e of None \<Rightarrow> None | Some s \<Rightarrow> stored_value a k s)"

text \<open>
  The effective value: the stored value when there is one, the default of the item when
  there is none. For a change, the new value when the change carries one, the default
  when it does not (the key was removed).
\<close>

definition effective_value :: "string \<Rightarrow> string \<Rightarrow> 'v js_value \<Rightarrow> 'v env \<Rightarrow> 'v js_value" where
  "effective_value a k d e = (case current_value a k e of Some v \<Rightarrow> Value v | None \<Rightarrow> d)"

definition effective_new_value :: "'v StorageItem \<Rightarrow> 'v StorageChange \<Rightarrow> 'v js_value" where
  "effective_new_value it ch = (if newValue ch = Undefined then defaultValue it else newValue ch)"

section \<open>Concrete hosts and items\<close>

text \<open>
  Small inputs on which the results below are run. Callback \<open>0\<close> throws on every value,
  every other callback returns.
\<close>

definition throwing_funs :: "nat \<Rightarrow> nat js_value \<Rightarrow> js_error option" where
  "throwing_funs c v = (if c = 0 then Some (Error ''boom'') else None)"

definition empty_store :: "nat browser_storage" where
  "empty_store =
     \<lparr>local_entries = Map.empty, sync_entries = Map.empty, managed_entries = None,
      onChanged_listeners = []\<rparr>"

definition host_env :: "nat env" where
  "host_env = \<lparr>storage = Some empty_store, funs = throwing_funs, tasks = [], effects = []\<rparr>"

definition stored_env :: "nat env" where
  "stored_env =
     \<lparr>storage = Some (empty_store\<lparr>local_entries := [''k'' \<mapsto> 9]\<rparr>),
      funs = throwing_funs, tasks = [], effects = []\<rparr>"

definition bare_env :: "nat env" where
  "bare_env = \<lparr>storage = None, funs = throwing_funs, tasks = [], effects = []\<rparr>"

definition local_item :: "string \<Rightarrow> nat list \<Rightarrow> nat StorageItem" where
  "local_item k obs =
     \<lparr>area = Some Local, key = k, areaName = ''local'', defaultValue = Value 0,
      observers = obs\<rparr>"

definition managed_item :: "nat StorageItem" where
  "managed_item =
     \<lparr>area = Some Managed, key = ''k'', areaName = ''managed'', defaultValue = Value 0,
      observers = []\<rparr>"

definition set_to :: "string \<Rightarrow> nat \<Rightarrow> (string \<rightharpoonup> nat StorageChange option)" where
  "set_to k v = [k \<mapsto> Some \<lparr>oldValue = Undefined, newValue = Value v\<rparr>]"

section \<open>Basic facts\<close>

lemma effects_log: "effects (log ef e) = effects e @ [ef]"
  by (simp add: log_def)

lemma storage_log: "storage (log ef e) = storage e"
  by (simp add: log_def)

lemma funs_log: "funs (log ef e) = funs e"
  by (simp add: log_def)

lemma tasks_log: "tasks (log ef e) = tasks e"
  by (simp add: log_def)

lemmas log_simps = effects_log storage_log funs_log tasks_log

text \<open>
  What the constructor returns, without and with \<open>browser.storage\<close>. An item in use is
  the constructor's item with some observer set: \<open>observe\<close> and \<open>unobserve\<close> change nothing
  else, and every other field is \<open>readonly\<close>.
\<close>

lemma new_degraded:
  assumes "storage e0 = None" and "fst (StorageItem_new k d a e0) = Inr (it\<lparr>observers := []\<rparr>)"
  shows "area it = None \<and> key it = k \<and> areaName it = a \<and> defaultValue it = d"
  using assms by (cases it) (simp add: StorageItem_new_def)

lemma new_active:
  assumes "storage e0 = Some s0" and "fst (StorageItem_new k d a e0) = Inr (it\<lparr>observers := []\<rparr>)"
  shows "key it = k \<and> areaName it = a \<and> defaultValue it = d \<and>
     area it = Some (if a = ''local'' then Local else if a = ''sync'' then Sync else Managed) \<and>
     (a = ''local'' \<or> a = ''sync'' \<or> a = ''managed'')"
  using assms
  by (cases it) (auto simp add: StorageItem_new_def active_item_def split: if_splits)

text \<open>Reading through an item that has an area, and through one that has none.\<close>

lemma getRawValue_active:
  "area it = Some h \<Longrightarrow> storage e = Some s \<Longrightarrow>
     fst (getRawValue it e) =
       (case host_get h (key it) s of
          Inl _ \<Rightarrow> Undefined
        | Inr data \<Rightarrow>
            (case js_get (key it) data of
               NotFound \<Rightarrow> Undefined
             | OwnProperty v \<Rightarrow> Value v
             | PrototypeMember n \<Rightarrow> Inherited n))"
  by (simp add: getRawValue_def getRawValue_begin_def getRawValue_end_def
      area_get_def log_simps split: sum.splits)

lemma getRawValue_degraded:
  "area it = None \<Longrightarrow> getRawValue it e = (Undefined, e)"
  by (simp add: getRawValue_def getRawValue_begin_def getRawValue_end_def)

lemma hasValue_raw: "fst (hasValue it e) = (fst (getRawValue it e) \<noteq> Undefined)"
  by (simp add: hasValue_def split: prod.splits)

lemma getValue_raw:
  "fst (getValue it e) =
     (if fst (getRawValue it e) = Undefined then defaultValue it else fst (getRawValue it e))"
  by (simp add: getValue_def split: prod.splits)

text \<open>A read of a key that is no property name of \<open>Object.prototype\<close> sees the store.\<close>

lemma js_get_restrict:
  "k \<notin> set Object_prototype \<Longrightarrow>
     js_get k (m |` {k}) = (case m k of None \<Rightarrow> NotFound | Some v \<Rightarrow> OwnProperty v)"
  by (simp add: js_get_def split: option.splits)

text \<open>The loop over the observers when one of them is the first to throw.\<close>

lemma forEach_first_throw:
  "\<forall>p\<in>set pre. funs e p v = None \<Longrightarrow> funs e c v = Some err \<Longrightarrow>
     observers_forEach (pre @ c # post) v e =
       (Some err, e\<lparr>effects := effects e @ map (\<lambda>p. Invoked p v) (pre @ [c])\<rparr>)"
proof (induction pre arbitrary: e)
  case Nil
  then show ?case by (simp add: log_def)
next
  case (Cons p pre)
  then show ?case by (simp add: log_def)
qed

lemma invocations_append:
  "invocations c (xs @ ys) = invocations c xs @ invocations c ys"
  by (induction c xs rule: invocations.induct) simp_all

lemma forEach_invocations:
  "c \<notin> set cs \<Longrightarrow>
     invocations c (effects (snd (observers_forEach cs v e))) = invocations c (effects e)"
proof (induction cs arbitrary: e)
  case Nil
  then show ?case by simp
next
  case (Cons x cs)
  then show ?case
    by (simp add: Let_def log_simps invocations_append split: option.splits)
qed

lemma dispatch_change_invocations:
  assumes "c \<notin> set (observers it)"
  shows "invocations c (effects (dispatch_change it nv e)) = invocations c (effects e)"
proof -
  have "invocations c (effects (snd (observers_forEach (observers it) v (log (SinkDispatch v) e))))
      = invocations c (effects e)" for v
    using forEach_invocations [OF assms, of v "log (SinkDispatch v) e"]
    by (simp add: log_simps invocations_append)
  then have fe: "observers_forEach (observers it) v (log (SinkDispatch v) e) = (r, e2) \<Longrightarrow>
      invocations c (effects e2) = invocations c (effects e)" for v r e2
    by (metis snd_conv)
  show ?thesis
    by (auto simp add: dispatch_change_def Let_def log_simps invocations_append fe
        split: option.splits prod.splits)
qed

lemma listener_invocations:
  assumes "c \<notin> set (observers it)"
  shows "invocations c (effects (onChanged_listener it changes an e)) = invocations c (effects e)"
  by (simp add: onChanged_listener_def dispatch_change_invocations [OF assms]
      split: js_lookup.splits option.splits)

text \<open>Settling suspended reads touches neither the store nor the callbacks.\<close>

lemma settle_storage: "storage (settle t e) = storage e"
  by (cases t) (simp add: settle_def Let_def log_simps split: option.splits)

lemma settle_funs: "funs (settle t e) = funs e"
  by (cases t) (simp add: settle_def Let_def log_simps split: option.splits)

lemma read_end_cong:
  "storage e = storage e' \<Longrightarrow> getRawValue_end p e = getRawValue_end p e'"
  by (cases p) (simp_all add: getRawValue_end_def area_get_def)

lemma settle_effects_cong:
  assumes "storage e = storage e'" and "funs e = funs e'"
  shows "\<exists>xs. effects (settle t e) = effects e @ xs \<and> effects (settle t e') = effects e' @ xs"
proof (cases t)
  case (ThenCallback p d c)
  from assms(1) have "getRawValue_end p e = getRawValue_end p e'" by (rule read_end_cong)
  with assms(2) ThenCallback show ?thesis
    by (simp add: settle_def Let_def log_simps split: option.splits)
qed

lemma fold_settle_cong:
  "storage e = storage e' \<Longrightarrow> funs e = funs e' \<Longrightarrow>
     \<exists>xs. effects (fold settle ts e) = effects e @ xs \<and>
          effects (fold settle ts e') = effects e' @ xs \<and>
          storage (fold settle ts e) = storage e \<and> funs (fold settle ts e) = funs e"
proof (induction ts arbitrary: e e')
  case Nil
  then show ?case by simp
next
  case (Cons t ts)
  from settle_effects_cong [OF Cons.prems, of t] obtain xs where
    xs: "effects (settle t e) = effects e @ xs" "effects (settle t e') = effects e' @ xs"
    by blast
  have "storage (settle t e) = storage (settle t e')" "funs (settle t e) = funs (settle t e')"
    using Cons.prems by (simp_all add: settle_storage settle_funs)
  from Cons.IH [OF this] obtain ys where
    ys: "effects (fold settle ts (settle t e)) = effects (settle t e) @ ys"
        "effects (fold settle ts (settle t e')) = effects (settle t e') @ ys"
        "storage (fold settle ts (settle t e)) = storage (settle t e)"
        "funs (fold settle ts (settle t e)) = funs (settle t e)"
    by blast
  with xs show ?case
    by (simp add: settle_storage settle_funs)
qed

lemma settle_invocation:
  "invocations c (effects (settle (ThenCallback p d c) e)) =
     invocations c (effects e) @
       [if getRawValue_end p e = Undefined then d else getRawValue_end p e]"
  by (simp add: settle_def Let_def log_simps invocations_append split: option.splits)

text \<open>Evaluating the concrete inputs.\<close>

lemmas example_defs =
  throwing_funs_def empty_store_def host_env_def stored_env_def bare_env_def
  local_item_def managed_item_def set_to_def


section \<open>Observer callbacks that throw\<close>

text \<open>
  C1 says that when one observer throws on a matching change notification, the exception
  is caught and logged and every remaining observer is still called with the effective
  new value. The \<open>try\<close> of the listener encloses the whole \<open>forEach\<close>, so the first throw
  ends the loop. With observers \<open>0\<close> and \<open>1\<close> registered in this order, \<open>0\<close> throwing, and
  local key \<open>k\<close> set to \<open>5\<close>: the sink gets \<open>5\<close>, observer \<open>0\<close> is called, its error is
  logged, and observer \<open>1\<close> is never called.
\<close>

theorem listener_skips_later_observers:
  "effects (onChanged_listener (local_item ''k'' [0, 1]) (set_to ''k'' 5) ''local'' host_env) =
     [SinkDispatch (Value 5), Invoked 0 (Value 5), ConsoleError (Error ''boom'')]
   \<and> Invoked 1 (Value 5) \<notin> set (effects
        (onChanged_listener (local_item ''k'' [0, 1]) (set_to ''k'' 5) ''local'' host_env))"
  by (simp add: onChanged_listener_def dispatch_change_def Let_def js_in_def js_get_def
      log_def example_defs)

text \<open>
  The same in general: on a matching change notification, when an observer throws and
  all observers registered before it return, the listener returns; the event sink got the
  effective new value, the observers up to and including the throwing one were called
  with it in registration order, the exception was logged, and nothing else happened.
\<close>

lemma listener_stops_at_throwing_observer:
  assumes "changes (key it) = Some (Some ch)" and "an = areaName it"
    and "observers it = pre @ c # post"
    and "\<forall>p\<in>set pre. funs e p (effective_new_value it ch) = None"
    and "funs e c (effective_new_value it ch) = Some err"
  shows "onChanged_listener it changes an e =
           e\<lparr>effects := effects e @
              SinkDispatch (effective_new_value it ch) #
              map (\<lambda>p. Invoked p (effective_new_value it ch)) (pre @ [c]) @
              [ConsoleError err]\<rparr>"
proof -
  let ?v = "effective_new_value it ch"
  let ?e1 = "log (SinkDispatch ?v) e"
  have "observers_forEach (pre @ c # post) ?v ?e1 =
       (Some err, ?e1\<lparr>effects := effects ?e1 @ map (\<lambda>p. Invoked p ?v) (pre @ [c])\<rparr>)"
    using assms(4,5) by (intro forEach_first_throw) (simp_all add: funs_log)
  moreover have "(if Undefined \<noteq> newValue ch then newValue ch else defaultValue it) = ?v"
    by (simp add: effective_new_value_def)
  ultimately have "dispatch_change it (newValue ch) e =
      e\<lparr>effects := effects e @ SinkDispatch ?v # map (\<lambda>p. Invoked p ?v) (pre @ [c]) @
          [ConsoleError err]\<rparr>"
    using assms(3) by (simp add: dispatch_change_def Let_def log_def)
  with assms(1,2) show ?thesis
    by (simp add: onChanged_listener_def js_in_def js_get_def)
qed

section \<open>Loading the Change Broadcaster without \<open>browser.storage\<close>\<close>

text \<open>
  C2 says that loading the module without a host storage API registers nothing and
  raises nothing. The module reads \<open>browser.storage.onChanged\<close> unguarded: on a host
  without \<open>browser.storage\<close> the load throws a \<open>TypeError\<close>.
\<close>

theorem GlobalStorageObserver_load_without_storage:
  "GlobalStorageObserver_load bare_env = Inl (TypeError ''browser.storage is undefined'')"
  by (simp add: GlobalStorageObserver_load_def bare_env_def)

section \<open>Construction with an unknown area\<close>

text \<open>
  C3, as stated, fails where the host storage API is unavailable: the constructor warns
  and returns before it looks at the area, so the area \<open>session\<close> gives an item and no
  error.
\<close>

theorem unknown_area_accepted_without_storage:
  "StorageItem_new ''k'' (Value 0) ''session'' bare_env =
     (Inr \<lparr>area = None, key = ''k'', areaName = ''session'', defaultValue = Value 0,
           observers = []\<rparr>,
      bare_env\<lparr>effects :=
        [ConsoleWarn ''browser.storage is not available, storage will not work'']\<rparr>)"
  by (simp add: StorageItem_new_def log_def bare_env_def)

text \<open>
  C3, amended. With the host storage API available, for every key, default value and
  area string outside local, sync and managed, the constructor throws the unknown-area
  error at once, before it registers a listener or does anything else.
\<close>

theorem unknown_area_throws:
  assumes "storage e = Some s"
    and "a \<noteq> ''local''" and "a \<noteq> ''sync''" and "a \<noteq> ''managed''"
  shows "StorageItem_new k d a e = (Inl (Error (''Unknown storage area: '' @ a)), e)"
  using assms by (simp add: StorageItem_new_def)

theorem unknown_area_throws_witness:
  "StorageItem_new ''k'' (Value 0) ''session'' host_env =
     (Inl (Error ''Unknown storage area: session''), host_env)"
proof -
  have "storage host_env = Some empty_store"
    by (simp add: host_env_def)
  from unknown_area_throws [OF this, of "''session''" "''k''" "Value 0"] show ?thesis
    by simp
qed

section \<open>Reads\<close>



section \<open>Writes\<close>




text \<open>
  C6. On an item bound to the managed area, \<open>setValue\<close> and \<open>clearValue\<close> throw their
  not-permitted errors and leave the whole environment as it was: the store is unchanged
  and no host call has been made.
\<close>

theorem managed_writes_not_permitted:
  assumes "areaName it = ''managed''"
  shows "setValue it v e = (Inl (Error ''Cannot set managed storage''), e)
       \<and> clearValue it e = (Inl (Error ''Cannot clear managed storage''), e)"
  using assms by (simp add: setValue_def clearValue_def)

theorem managed_writes_not_permitted_witness:
  "areaName managed_item = ''managed''
   \<and> setValue managed_item (Value 7) host_env
       = (Inl (Error ''Cannot set managed storage''), host_env)
   \<and> clearValue managed_item host_env
       = (Inl (Error ''Cannot clear managed storage''), host_env)"
proof -
  have 1: "areaName managed_item = ''managed''"
    by (simp add: managed_item_def)
  from 1 managed_writes_not_permitted [OF 1, of "Value 7" host_env] show ?thesis
    by simp
qed


section \<open>Change notifications for other keys and areas\<close>

text \<open>
  C7 says that a change notification for another key or another area dispatches nothing.
  The key filter is \<open>this.key in changes\<close>, which is also true of every property name of
  \<open>Object.prototype\<close>. For the local item with key \<open>toString\<close>, default \<open>0\<close> and observers
  \<open>1\<close> and \<open>2\<close>, a change of the local key \<open>other\<close> passes the filter; \<open>changes[this.key]\<close>
  is the inherited function, which has no \<open>newValue\<close>, so the default goes to the event
  sink and to both observers.
\<close>

theorem listener_dispatches_for_inherited_key:
  "set_to ''other'' 5 (key (local_item ''toString'' [1, 2])) = None
   \<and> effects (onChanged_listener (local_item ''toString'' [1, 2]) (set_to ''other'' 5)
        ''local'' host_env)
     = [SinkDispatch (Value 0), Invoked 1 (Value 0), Invoked 2 (Value 0)]"
  by (simp add: onChanged_listener_def dispatch_change_def Let_def js_in_def js_get_def
      Object_prototype_def log_def example_defs)

text \<open>
  What the filter does achieve: a notification whose area name is not the item's, or in
  whose \<open>changes\<close> object the key is not found by \<open>in\<close>, leaves the environment as it was.
\<close>

lemma listener_ignores_other_changes:
  assumes "\<not> js_in (key it) changes \<or> an \<noteq> areaName it"
  shows "onChanged_listener it changes an e = e"
  using assms by (auto simp add: onChanged_listener_def)

section \<open>The value \<open>getValue\<close> returns\<close>

text \<open>
  C8 says that \<open>getValue\<close> returns the stored value when there is one and the default
  value otherwise, in particular right after construction with nothing stored. The read
  is \<open>data[this.key]\<close> on a plain object. For the key \<open>toString\<close>, default \<open>0\<close>, area local
  and an empty store, the item the constructor returns reads the inherited function:
  \<open>hasValue\<close> is true and \<open>getValue\<close> gives that function, not the default.
\<close>

theorem getValue_returns_inherited_member:
  "fst (StorageItem_new ''toString'' (Value 0) ''local'' host_env)
     = Inr (local_item ''toString'' [])
   \<and> current_value ''local'' ''toString'' host_env = None
   \<and> fst (hasValue (local_item ''toString'' [])
        (snd (StorageItem_new ''toString'' (Value 0) ''local'' host_env))) = True
   \<and> fst (getValue (local_item ''toString'' [])
        (snd (StorageItem_new ''toString'' (Value 0) ''local'' host_env)))
       = Inherited ''toString''"
  by (simp add: StorageItem_new_def active_item_def addListener_def current_value_def
      stored_value_def hasValue_raw getValue_raw getRawValue_active [where h = Local]
      host_get_def js_get_def Object_prototype_def example_defs)

text \<open>
  What the read does achieve, for a key that is no property name of \<open>Object.prototype\<close>:
  in any later state of the same host, \<open>hasValue\<close> tells whether a value is stored under
  the key in the item's area, and \<open>getValue\<close> gives the effective value.
\<close>

lemma getValue_outside_prototype:
  assumes "fst (StorageItem_new k d a e0) = Inr (it\<lparr>observers := []\<rparr>)"
    and "(storage e = None) = (storage e0 = None)"
    and "k \<notin> set Object_prototype"
  shows "fst (hasValue it e) = (current_value a k e \<noteq> None)
       \<and> fst (getValue it e) = effective_value a k d e"
proof (cases "storage e0")
  case None
  from new_degraded [OF None assms(1)] have "area it = None" and "defaultValue it = d"
    by simp_all
  with None assms(2) show ?thesis
    by (simp add: hasValue_raw getValue_raw getRawValue_degraded current_value_def
        effective_value_def)
next
  case (Some s0)
  with assms(2) obtain s where s: "storage e = Some s" by auto
  from new_active [OF Some assms(1)] s assms(3) show ?thesis
    by (auto simp add: hasValue_raw getValue_raw getRawValue_active js_get_restrict
        current_value_def effective_value_def stored_value_def host_get_def
        split: option.splits)
qed

section \<open>Managed area in degraded mode\<close>

text \<open>
  C9. An item constructed for the managed area while the host storage API is
  unavailable has no area object, and still \<open>setValue\<close> and \<open>clearValue\<close> throw the
  not-permitted errors: the area name is tested before the missing area is.
\<close>

theorem degraded_managed_writes_throw:
  assumes "storage e0 = None" and "fst (StorageItem_new k d ''managed'' e0) = Inr it"
  shows "area it = None
       \<and> setValue it v e = (Inl (Error ''Cannot set managed storage''), e)
       \<and> clearValue it e = (Inl (Error ''Cannot clear managed storage''), e)"
  using assms by (auto simp add: StorageItem_new_def setValue_def clearValue_def)

theorem degraded_managed_writes_throw_witness:
  "fst (StorageItem_new ''k'' (Value 0) ''managed'' bare_env)
     = Inr (managed_item\<lparr>area := None\<rparr>)
   \<and> setValue (managed_item\<lparr>area := None\<rparr>) (Value 7) bare_env =
       (Inl (Error ''Cannot set managed storage''), bare_env)
   \<and> clearValue (managed_item\<lparr>area := None\<rparr>) bare_env =
       (Inl (Error ''Cannot clear managed storage''), bare_env)"
proof -
  have 1: "storage bare_env = None"
    by (simp add: bare_env_def)
  have 2: "fst (StorageItem_new ''k'' (Value 0) ''managed'' bare_env)
      = Inr (managed_item\<lparr>area := None\<rparr>)"
    by (simp add: StorageItem_new_def example_defs)
  from 2 degraded_managed_writes_throw [OF 1 2, of "Value 7" bare_env] show ?thesis
    by simp
qed

section \<open>\<open>observe\<close> followed by \<open>unobserve\<close>\<close>

text \<open>
  C10 says that after \<open>observe(cb, true)\<close> and \<open>unobserve(cb)\<close> the callback is still
  called exactly once, with the current effective value. The call does happen, once, but
  its argument is what \<open>getValue\<close> resolves to, and that read is \<open>data[this.key]\<close> on a
  plain object. For the local item with key \<open>toString\<close> and default \<open>0\<close> on an empty
  store, the effective value is \<open>0\<close>; callback \<open>1\<close> is observed and unobserved, the
  suspended read is settled, and the callback receives the inherited function.
\<close>

theorem observe_reports_inherited_member:
  "effective_value ''local'' ''toString'' (Value 0) host_env = Value 0
   \<and> observers (unobserve 1 (fst (observe 1 True (local_item ''toString'' []) host_env))) = []
   \<and> invocations 1 (effects (run_tasks (snd (observe 1 True (local_item ''toString'' [])
        host_env)))) = [Inherited ''toString'']"
  by (simp add: effective_value_def current_value_def stored_value_def observe_def
      unobserve_def set_add_def set_delete_def getRawValue_begin_def run_tasks_def settle_def
      getRawValue_end_def area_get_def host_get_def js_get_def Object_prototype_def
      log_def example_defs)

text \<open>
  What holds for every item, callback and environment: \<open>observe(cb, true)\<close> followed by
  \<open>unobserve(cb)\<close> adds exactly one call of \<open>cb\<close> to those already pending, after them, with
  the value \<open>getValue\<close> gives at that moment; \<open>cb\<close> is then not in the observer set, and
  no change notification calls it.
\<close>

lemma observe_unobserve_reports_once:
  "(case observe c True it e of (it1, e1) \<Rightarrow>
      invocations c (effects (run_tasks e1)) =
        invocations c (effects (run_tasks e)) @ [fst (getValue it e)]
      \<and> c \<notin> set (observers (unobserve c it1))
      \<and> (\<forall>changes an e'.
           invocations c (effects (onChanged_listener (unobserve c it1) changes an e'))
             = invocations c (effects e')))"
proof -
  obtain p e0 where b: "getRawValue_begin it e = (p, e0)"
    by (cases "getRawValue_begin it e")
  have e0: "storage e0 = storage e" "funs e0 = funs e" "tasks e0 = tasks e"
    and e0_eff: "invocations c (effects e0) = invocations c (effects e)"
    using b
    by (auto simp add: getRawValue_begin_def log_simps invocations_append split: option.splits)
  let ?t = "ThenCallback p (defaultValue it) c"
  let ?a = "e0\<lparr>tasks := []\<rparr>" and ?b = "e\<lparr>tasks := []\<rparr>"
  have ob: "observe c True it e =
      (it\<lparr>observers := set_add c (observers it)\<rparr>, e0\<lparr>tasks := tasks e @ [?t]\<rparr>)"
    using b e0 by (simp add: observe_def)
  have run: "run_tasks (e0\<lparr>tasks := tasks e @ [?t]\<rparr>) = settle ?t (fold settle (tasks e) ?a)"
    by (simp add: run_tasks_def)
  have "storage ?a = storage ?b" "funs ?a = funs ?b"
    using e0 by simp_all
  from fold_settle_cong [OF this, of "tasks e"] obtain xs where
    xs: "effects (fold settle (tasks e) ?a) = effects e0 @ xs"
        "effects (fold settle (tasks e) ?b) = effects e @ xs"
        "storage (fold settle (tasks e) ?a) = storage e0"
    by auto
  have rd: "getRawValue_end p (fold settle (tasks e) ?a) = fst (getRawValue it e)"
    using b read_end_cong [of "fold settle (tasks e) ?a" e0 p] xs(3)
    by (simp add: getRawValue_def)
  have 1: "invocations c (effects (run_tasks (e0\<lparr>tasks := tasks e @ [?t]\<rparr>))) =
        invocations c (effects (run_tasks e)) @ [fst (getValue it e)]"
    unfolding run settle_invocation rd
    using xs e0_eff by (simp add: run_tasks_def invocations_append getValue_raw)
  have 2: "c \<notin> set (observers (unobserve c (it\<lparr>observers := set_add c (observers it)\<rparr>)))"
    by (simp add: unobserve_def set_delete_def)
  from 1 2 listener_invocations [OF 2] show ?thesis
    unfolding ob by simp
qed

end
